theory Spec2Isabelle
  imports Main
begin

section \<open>arrow/util/compare.h: the CRTP helper EqualityComparable\<close>

text \<open>
  The header declares one class template, \<^verbatim>\<open>EqualityComparable<T>\<close>. A type \<open>T\<close> derives
  from \<^verbatim>\<open>EqualityComparable<T>\<close>, supplies \<^verbatim>\<open>T::Equals\<close>, and receives
  \<^item> \<^verbatim>\<open>Equals(const std::shared_ptr<T>& other, Extra&&... extra)\<close> (lines 111-117),
  \<^item> the functor \<^verbatim>\<open>PtrsEqual\<close> (lines 119-123),
  \<^item> \<^verbatim>\<open>operator==\<close> and \<^verbatim>\<open>operator!=\<close> (lines 125-126).

  The template parameter is a type variable \<open>'t\<close>, and \<^verbatim>\<open>T::Equals\<close>, which the header calls
  and never defines, is a parameter \<open>T_Equals\<close> of every operation. Nothing is assumed of
  it: a C++ member function may read and write memory and may throw, so it is a function of
  the program state that yields either an exception or a \<^verbatim>\<open>bool\<close>, together with the
  state it leaves.
\<close>

subsection \<open>Data model\<close>

text \<open>
  \<^verbatim>\<open>std::shared_ptr<T>\<close>: either null (it compares equal to \<^verbatim>\<open>NULLPTR\<close>), or it holds the
  address of an object and dereferences to that object.
\<close>

datatype 't shared_ptr = NULLPTR | SharedPtr nat 't

text \<open>
  A call of a C++ function returning \<^verbatim>\<open>bool\<close>: started in a state \<open>'s\<close>, it throws
  (\<open>Inl\<close>) or returns (\<open>Inr\<close>), and leaves a state.
\<close>

type_synonym ('e, 's) call = "'s \<Rightarrow> ('e + bool) \<times> 's"

text \<open>
  \<^verbatim>\<open>T::Equals\<close>: the receiver, the other object, and the pack of extra arguments. The
  overloads of \<^verbatim>\<open>T::Equals\<close> for different packs are one function of the list of extras;
  the empty list is the call \<^verbatim>\<open>a.Equals(b)\<close>.
\<close>

type_synonym ('t, 'x, 'e, 's) Equals_method = "'t \<Rightarrow> 't \<Rightarrow> 'x list \<Rightarrow> ('e, 's) call"

text \<open>
  Dereferencing a null \<^verbatim>\<open>shared_ptr\<close> is undefined behaviour: the program has no result
  and no state after it.
\<close>

datatype undefined_behaviour = NullDereference

subsection \<open>Operations\<close>

text \<open>\<^verbatim>\<open>return v;\<close>\<close>

definition return_bool :: "bool \<Rightarrow> ('e, 's) call" where
  "return_bool v s = (Inr v, s)"

text \<open>
  \<^verbatim>\<open>return !(c);\<close> for a call \<open>c\<close>: an exception of \<open>c\<close> propagates, a returned value is
  negated.
\<close>

definition return_not :: "('e, 's) call \<Rightarrow> ('e, 's) call" where
  "return_not c s = (case c s of (Inl e, s') \<Rightarrow> (Inl e, s') | (Inr v, s') \<Rightarrow> (Inr (\<not> v), s'))"

text \<open>
  Line 129: \<^verbatim>\<open>const T& cast() const { return static_cast<const T&>(*this); }\<close>. The
  base subobject and the object of type \<open>T\<close> are the same object.
\<close>

definition cast :: "'t \<Rightarrow> 't" where
  "cast this = this"

text \<open>
  Lines 111-117:
  \<^verbatim>\<open>
  template <typename... Extra>
  bool Equals(const std::shared_ptr<T>& other, Extra&&... extra) const {
    if (other == NULLPTR) {
      return false;
    }
    return cast().Equals(*other, std::forward<Extra>(extra)...);
  }
  \<close>
\<close>

definition Equals ::
  "('t, 'x, 'e, 's) Equals_method \<Rightarrow> 't \<Rightarrow> 't shared_ptr \<Rightarrow> 'x list \<Rightarrow> ('e, 's) call" where
  "Equals T_Equals this other extra =
     (case other of
        NULLPTR \<Rightarrow> return_bool False
      | SharedPtr p b \<Rightarrow> T_Equals (cast this) b extra)"

text \<open>
  Lines 119-123:
  \<^verbatim>\<open>
  struct PtrsEqual {
    bool operator()(const std::shared_ptr<T>& l, const std::shared_ptr<T>& r) const {
      return l->Equals(*r);
    }
  };
  \<close>
  There is no null test: \<^verbatim>\<open>l->\<close> and \<^verbatim>\<open>*r\<close> dereference whatever they are given.
\<close>

definition PtrsEqual ::
  "('t, 'x, 'e, 's) Equals_method \<Rightarrow> 't shared_ptr \<Rightarrow> 't shared_ptr \<Rightarrow> 's \<Rightarrow>
     undefined_behaviour + (('e + bool) \<times> 's)" where
  "PtrsEqual T_Equals l r s =
     (case l of
        NULLPTR \<Rightarrow> Inl NullDereference
      | SharedPtr p a \<Rightarrow>
          (case r of
             NULLPTR \<Rightarrow> Inl NullDereference
           | SharedPtr q b \<Rightarrow> Inr (T_Equals a b [] s)))"

text \<open>
  Line 125: \<^verbatim>\<open>friend bool operator==(T const& a, T const& b) { return a.Equals(b); }\<close>
\<close>

definition operator_eq :: "('t, 'x, 'e, 's) Equals_method \<Rightarrow> 't \<Rightarrow> 't \<Rightarrow> ('e, 's) call" where
  "operator_eq T_Equals a b = T_Equals a b []"

text \<open>
  Line 126: \<^verbatim>\<open>friend bool operator!=(T const& a, T const& b) { return !(a == b); }\<close>
\<close>

definition operator_ne :: "('t, 'x, 'e, 's) Equals_method \<Rightarrow> 't \<Rightarrow> 't \<Rightarrow> ('e, 's) call" where
  "operator_ne T_Equals a b = return_not (operator_eq T_Equals a b)"

subsection \<open>Purity of a method\<close>

text \<open>
  A call is pure when it leaves the state as it found it and its outcome does not depend on
  the state: run again, from the state the first run left or from any other, it gives the
  same outcome. \<^verbatim>\<open>T::Equals\<close> is pure when each of its calls is.
\<close>

definition pure_call :: "('e, 's) call \<Rightarrow> bool" where
  "pure_call c = (\<forall>s. snd (c s) = s \<and> (\<forall>s'. fst (c s') = fst (c s)))"

definition pure_method :: "('t, 'x, 'e, 's) Equals_method \<Rightarrow> bool" where
  "pure_method T_Equals = (\<forall>a b extra. pure_call (T_Equals a b extra))"

subsection \<open>Instances of the template\<close>

text \<open>
  A conforming type: points of the plane. \<^verbatim>\<open>Point::Equals(const Point&) const\<close> compares
  the coordinates; the overload with one extra argument compares them up to a tolerance.
  It reads no state and never throws.
\<close>

datatype Point = Point int int

fun Point_Equals :: "(Point, int, unit, nat) Equals_method" where
  "Point_Equals (Point ax ay) (Point bx by) [] s = (Inr (ax = bx \<and> ay = by), s)"
| "Point_Equals (Point ax ay) (Point bx by) (tol # rest) s =
     (Inr (\<bar>ax - bx\<bar> \<le> tol \<and> \<bar>ay - by\<bar> \<le> tol), s)"

text \<open>
  A type whose \<^verbatim>\<open>Equals\<close> is neither symmetric nor pure: it compares by \<open>\<le>\<close>, counts its
  calls in the state, and throws when the receiver is \<open>0\<close>.
\<close>

definition Counting_Equals :: "(nat, unit, string, nat) Equals_method" where
  "Counting_Equals a b extra calls =
     (if a = 0 then (Inl ''receiver is zero'', Suc calls) else (Inr (a \<le> b), Suc calls))"

section \<open>Auxiliary facts\<close>

text \<open>Negating the result of a call keeps its state and maps over its outcome.\<close>

lemma snd_return_not: "snd (return_not c s) = snd (c s)"
  by (simp add: return_not_def split: prod.splits sum.splits)

lemma fst_return_not: "fst (return_not c s) = map_sum (\<lambda>e. e) (\<lambda>v. \<not> v) (fst (c s))"
  by (simp add: return_not_def split: prod.splits sum.splits)

lemma pure_call_return_bool: "pure_call (return_bool v)"
  by (simp add: pure_call_def return_bool_def)

lemma pure_call_return_not: "pure_call c \<Longrightarrow> pure_call (return_not c)"
  unfolding pure_call_def by (metis snd_return_not fst_return_not)

text \<open>Two calls in a row of a pure call give the same outcome and state.\<close>

lemma pure_call_twice: "pure_call c \<Longrightarrow> c (snd (c s)) = c s"
  by (simp add: pure_call_def)

text \<open>\<^verbatim>\<open>Point::Equals\<close> is symmetric and pure; the counting method is not pure.\<close>

lemma Point_Equals_symmetric: "Point_Equals a b [] s = Point_Equals b a [] s"
  by (cases a; cases b) auto

lemma snd_Point_Equals: "snd (Point_Equals a b extra s) = s"
  by (cases a; cases b; cases extra) simp_all

lemma fst_Point_Equals: "fst (Point_Equals a b extra s') = fst (Point_Equals a b extra s)"
  by (cases a; cases b; cases extra) simp_all

lemma pure_method_Point_Equals: "pure_method Point_Equals"
  unfolding pure_method_def pure_call_def
  using snd_Point_Equals fst_Point_Equals by blast

lemma Counting_Equals_not_pure: "\<not> pure_method Counting_Equals"
proof
  assume "pure_method Counting_Equals"
  then have "snd (Counting_Equals 1 1 [] 0) = 0"
    unfolding pure_method_def pure_call_def by blast
  then show False by (simp add: Counting_Equals_def)
qed

section \<open>The claims\<close>

text \<open>
  C1. For every type \<open>T\<close> that provides \<^verbatim>\<open>Equals\<close> and all values \<open>a\<close>, \<open>b\<close> of \<open>T\<close>, the
  synthesized \<^verbatim>\<open>operator==(a, b)\<close> returns exactly \<^verbatim>\<open>a.Equals(b)\<close>: the same outcome (value
  or exception) and the same state, from every state.
\<close>

theorem operator_eq_is_Equals:
  "operator_eq T_Equals a b s = T_Equals a b [] s"
  by (simp add: operator_eq_def)

text \<open>
  C2. For every value \<open>a\<close> and every list of extra arguments, \<^verbatim>\<open>a.Equals(other, extra...)\<close>
  with a null \<^verbatim>\<open>other\<close> returns \<^verbatim>\<open>false\<close>. The outcome is a returned value, never an
  exception, and the state is the one the call started in. \<open>T_Equals\<close> is arbitrary here:
  the result holds also for a \<^verbatim>\<open>T::Equals\<close> that would throw or would record its calls in
  the state, so \<^verbatim>\<open>T::Equals\<close> is not invoked. The receiver is an object, never absent, so
  no absent reference is treated as equal to anything.
\<close>

theorem Equals_null_returns_false:
  "Equals T_Equals a NULLPTR extra s = (Inr False, s)"
  by (simp add: Equals_def return_bool_def)

text \<open>
  C3. For every value \<open>a\<close>, every non-null \<^verbatim>\<open>shared_ptr\<close> to a value \<open>b\<close> and every list of
  extra arguments, \<^verbatim>\<open>a.Equals(other, extra...)\<close> is \<^verbatim>\<open>a.Equals(b, extra...)\<close>: the pointer is
  dereferenced and the call is delegated to \<^verbatim>\<open>T::Equals\<close> with the extras unchanged.
\<close>

theorem Equals_nonnull_delegates:
  "Equals T_Equals a (SharedPtr p b) extra s = T_Equals a b extra s"
  by (simp add: Equals_def cast_def)

text \<open>
  C4. For non-null \<^verbatim>\<open>shared_ptr\<close>s to values \<open>a\<close> and \<open>b\<close>, \<^verbatim>\<open>PtrsEqual()(l, r)\<close> is
  \<^verbatim>\<open>a.Equals(b)\<close>. The addresses the pointers hold play no part: with the same pointees at
  other addresses the result is the same.
\<close>

theorem PtrsEqual_is_Equals_on_pointees:
  "PtrsEqual T_Equals (SharedPtr p a) (SharedPtr q b) s = Inr (T_Equals a b [] s) \<and>
   PtrsEqual T_Equals (SharedPtr p' a) (SharedPtr q' b) s =
     PtrsEqual T_Equals (SharedPtr p a) (SharedPtr q b) s"
  by (simp add: PtrsEqual_def)

text \<open>
  C5. \<^verbatim>\<open>operator!=(a, b)\<close> is the negation of \<^verbatim>\<open>operator==(a, b)\<close>: from the same state,
  when \<^verbatim>\<open>a == b\<close> returns \<open>v\<close>, \<^verbatim>\<open>a != b\<close> returns \<open>\<not> v\<close> and leaves the same state; when
  \<^verbatim>\<open>a == b\<close> throws, \<^verbatim>\<open>a != b\<close> throws the same exception. Every outcome of \<^verbatim>\<open>a == b\<close> is
  one of the two, so the operators cannot diverge.
\<close>

theorem operator_ne_negates_operator_eq:
  "(operator_eq T_Equals a b s = (Inr v, s') \<longrightarrow>
      operator_ne T_Equals a b s = (Inr (\<not> v), s')) \<and>
   (operator_eq T_Equals a b s = (Inl e, s') \<longrightarrow>
      operator_ne T_Equals a b s = (Inl e, s'))"
  by (simp add: operator_ne_def return_not_def)

theorem operator_ne_negates_operator_eq_witness:
  "operator_eq Counting_Equals 1 2 0 = (Inr True, 1) \<and>
   operator_ne Counting_Equals 1 2 0 = (Inr False, 1) \<and>
   operator_eq Counting_Equals 0 2 0 = (Inl ''receiver is zero'', 1) \<and>
   operator_ne Counting_Equals 0 2 0 = (Inl ''receiver is zero'', 1)"
proof -
  have returns: "operator_eq Counting_Equals 1 2 0 = (Inr True, 1)"
    by (simp add: operator_eq_def Counting_Equals_def)
  have throws: "operator_eq Counting_Equals 0 2 0 = (Inl ''receiver is zero'', 1)"
    by (simp add: operator_eq_def Counting_Equals_def)
  from returns
    operator_ne_negates_operator_eq [of Counting_Equals 1 2 0 True 1, THEN conjunct1]
  have "operator_ne Counting_Equals 1 2 0 = (Inr False, 1)" by simp
  moreover from throws
    operator_ne_negates_operator_eq
      [of Counting_Equals 0 2 0 _ 1 "''receiver is zero''", THEN conjunct2]
  have "operator_ne Counting_Equals 0 2 0 = (Inl ''receiver is zero'', 1)" by simp
  ultimately show ?thesis using returns throws by simp
qed

text \<open>
  C7. When both pointers given to \<^verbatim>\<open>PtrsEqual\<close> are non-null, the null dereference is not
  reached: the call has a result. When either is null, it is reached: \<^verbatim>\<open>PtrsEqual\<close> tests
  neither pointer, so the call is undefined behaviour, with no value returned and nothing
  for the caller to recover from.
\<close>

theorem PtrsEqual_null_dereference:
  "(l \<noteq> NULLPTR \<and> r \<noteq> NULLPTR \<longrightarrow> (\<exists>out. PtrsEqual T_Equals l r s = Inr out)) \<and>
   (l = NULLPTR \<or> r = NULLPTR \<longrightarrow> PtrsEqual T_Equals l r s = Inl NullDereference)"
  by (simp add: PtrsEqual_def split: shared_ptr.splits)

theorem PtrsEqual_null_dereference_witness:
  "PtrsEqual Point_Equals (SharedPtr 1 (Point 1 2)) (SharedPtr 2 (Point 1 2)) 0
     \<noteq> Inl NullDereference \<and>
   PtrsEqual Point_Equals NULLPTR (SharedPtr 2 (Point 1 2)) 0 = Inl NullDereference \<and>
   PtrsEqual Point_Equals (SharedPtr 1 (Point 1 2)) NULLPTR 0 = Inl NullDereference"
  using PtrsEqual_null_dereference
          [of "SharedPtr 1 (Point 1 2)" "SharedPtr 2 (Point 1 2)" Point_Equals 0]
        PtrsEqual_null_dereference [of NULLPTR "SharedPtr 2 (Point 1 2)" Point_Equals 0]
        PtrsEqual_null_dereference [of "SharedPtr 1 (Point 1 2)" NULLPTR Point_Equals 0]
  by auto

text \<open>
  C8. When \<^verbatim>\<open>T::Equals\<close> is symmetric (\<^verbatim>\<open>a.Equals(b)\<close> and \<^verbatim>\<open>b.Equals(a)\<close> agree for all
  \<open>a\<close>, \<open>b\<close>), \<^verbatim>\<open>operator==\<close> is commutative. The helper does not enforce the symmetry: for
  the counting method, which compares by \<open>\<le>\<close>, \<^verbatim>\<open>1 == 2\<close> and \<^verbatim>\<open>2 == 1\<close> differ.
\<close>

theorem operator_eq_commutative_for_symmetric_Equals:
  "((\<forall>a b s. T_Equals a b [] s = T_Equals b a [] s) \<longrightarrow>
      operator_eq T_Equals a b s = operator_eq T_Equals b a s) \<and>
   operator_eq Counting_Equals 1 2 0 \<noteq> operator_eq Counting_Equals 2 1 0"
  by (simp add: operator_eq_def Counting_Equals_def)

theorem operator_eq_commutative_for_symmetric_Equals_witness:
  "(\<forall>a b s. Point_Equals a b [] s = Point_Equals b a [] s) \<and>
   operator_eq Point_Equals (Point 1 2) (Point 3 4) 0 =
     operator_eq Point_Equals (Point 3 4) (Point 1 2) 0"
  using operator_eq_commutative_for_symmetric_Equals
          [of Point_Equals "Point 1 2" "Point 3 4" 0, THEN conjunct1]
        Point_Equals_symmetric
  by simp

text \<open>
  C9. When \<^verbatim>\<open>T::Equals\<close> is pure, so is every derived operation: \<^verbatim>\<open>operator==\<close>,
  \<^verbatim>\<open>operator!=\<close>, \<^verbatim>\<open>Equals\<close> over a \<^verbatim>\<open>shared_ptr\<close> (null or not, with any extras), and
  \<^verbatim>\<open>PtrsEqual\<close> on non-null pointers (on a null pointer it has no result at all). Each
  leaves the state as it found it, so no operand and nothing else is modified, and its
  outcome does not depend on the state, so two invocations on the same arguments give the
  same result. The operations take the method, the operands and the state only: the helper
  has no state of its own.
\<close>

theorem derived_operations_pure:
  assumes "pure_method T_Equals"
  shows "pure_call (operator_eq T_Equals a b) \<and>
         pure_call (operator_ne T_Equals a b) \<and>
         pure_call (Equals T_Equals a other extra) \<and>
         (\<exists>c. pure_call c \<and>
            (\<forall>s. PtrsEqual T_Equals (SharedPtr p a) (SharedPtr q b) s = Inr (c s)))"
proof -
  from assms have eq: "pure_call (operator_eq T_Equals a b)"
    by (simp add: pure_method_def operator_eq_def)
  then have ne: "pure_call (operator_ne T_Equals a b)"
    by (simp add: operator_ne_def pure_call_return_not)
  from assms have ptr: "pure_call (Equals T_Equals a other extra)"
    by (cases other) (simp_all add: Equals_def pure_call_return_bool pure_method_def)
  from assms have "pure_call (T_Equals a b [])"
    by (simp add: pure_method_def)
  moreover have
    "\<forall>s. PtrsEqual T_Equals (SharedPtr p a) (SharedPtr q b) s = Inr (T_Equals a b [] s)"
    by (simp add: PtrsEqual_def)
  ultimately have "\<exists>c. pure_call c \<and>
      (\<forall>s. PtrsEqual T_Equals (SharedPtr p a) (SharedPtr q b) s = Inr (c s))"
    by blast
  with eq ne ptr show ?thesis by simp
qed

theorem derived_operations_pure_witness:
  "pure_method Point_Equals \<and>
   pure_call (operator_eq Point_Equals (Point 1 2) (Point 1 3)) \<and>
   pure_call (operator_ne Point_Equals (Point 1 2) (Point 1 3)) \<and>
   pure_call (Equals Point_Equals (Point 1 2) (SharedPtr 7 (Point 1 3)) [1]) \<and>
   (\<exists>c. pure_call c \<and>
      (\<forall>s. PtrsEqual Point_Equals (SharedPtr 7 (Point 1 2)) (SharedPtr 8 (Point 1 3)) s =
              Inr (c s)))"
  using pure_method_Point_Equals
    derived_operations_pure [OF pure_method_Point_Equals,
      of "Point 1 2" "Point 1 3" "SharedPtr 7 (Point 1 3)" "[1]" 7 8]
  by simp

text \<open>
  C10. For every value \<open>a\<close> and every non-null \<^verbatim>\<open>shared_ptr\<close> to a value \<open>b\<close>,
  \<^verbatim>\<open>a.Equals(other)\<close> with no extra argument agrees with \<^verbatim>\<open>a == b\<close>.
\<close>

theorem Equals_shared_ptr_agrees_with_operator_eq:
  "Equals T_Equals a (SharedPtr p b) [] s = operator_eq T_Equals a b s"
  by (simp add: Equals_def cast_def operator_eq_def)

end
